theory Spec2Isabelle
  imports Complex_Main "HOL-Library.Word"
begin

section \<open>Data model of \<open>main.go\<close>\<close>

text \<open>
  Go's \<open>int64\<close> is a 64-bit two's complement integer: \<open>+\<close> and \<open>-\<close> wrap around,
  comparisons are signed (\<open><s\<close>, \<open>\<le>s\<close>). Go's \<open>int\<close> is taken to be 64 bits wide as
  well (every 64-bit platform), so the conversions \<open>int(...)\<close> and \<open>int64(...)\<close> of the
  source are identities.
\<close>

type_synonym int64 = "64 word"

record Process =
  ProcessID :: int64
  ArrivalTime :: int64
  BurstDuration :: int64
  Priority :: int64
  startingTime :: int64
  isDone :: bool
  hasMultiple :: bool
  totalWait :: int64
  stoppingTime :: int64

record TimeSlice =
  PID :: int64
  Start :: int64
  Stop :: int64

text \<open>
  The \<open>float64\<close> accumulators of the schedulers only ever hold sums of converted
  \<open>int64\<close> values. They are modelled by the exact integer sum (the rounding of sums
  beyond \<open>2^53\<close> is not modelled). The three final divisions follow IEEE 754 as Go's
  \<open>/\<close> on \<open>float64\<close> does: no panic, \<open>0/0\<close> is NaN, \<open>x/0\<close> is an infinity. Negative zero
  cannot arise, since every operand is a sum of converted integers.
\<close>

datatype f64 = Fin rat | PosInf | NegInf | NaN

definition f64_div :: "int \<Rightarrow> int \<Rightarrow> f64" where
  "f64_div x y =
     (if y = 0 then (if x = 0 then NaN else if 0 < x then PosInf else NegInf)
      else Fin (of_int x / of_int y))"

text \<open>
  A row of the schedule table is a \<open>[]string\<close> of seven cells, each \<open>fmt.Sprint\<close> of an
  \<open>int64\<close>; the model keeps the number printed in each cell. A \<open>nil\<close> row (as left by
  \<open>make([][]string, n)\<close>) is the empty list.
\<close>

type_synonym row = "int64 list"

text \<open>What a scheduler hands to \<open>outputGantt\<close> and \<open>outputSchedule\<close>.\<close>

record Output =
  out_gantt :: "TimeSlice list"
  out_schedule :: "row list"
  aveWait :: f64
  aveTurnaround :: f64
  aveThroughput :: f64

text \<open>
  The local variables that all four schedulers declare in their \<open>var\<close> block and
  update while they build the table and the chart.
\<close>

record Vars =
  serviceTime :: int64
  sumWait :: int
  sumTurnaround :: int
  lastCompletion :: int
  waitingTime :: int64
  schedule :: "row list"
  gantt :: "TimeSlice list"

definition vars0 :: "nat \<Rightarrow> Vars" where
  "vars0 n = \<lparr> serviceTime = 0, sumWait = 0, sumTurnaround = 0, lastCompletion = 0,
               waitingTime = 0, schedule = replicate n [], gantt = [] \<rparr>"

text \<open>The footer computation shared by the four schedulers (lines 130-133 and alike).\<close>

definition finish :: "nat \<Rightarrow> Vars \<Rightarrow> Output" where
  "finish count v =
     \<lparr> out_gantt = gantt v, out_schedule = schedule v,
       aveWait = f64_div (sumWait v) (int count),
       aveTurnaround = f64_div (sumTurnaround v) (int count),
       aveThroughput = f64_div (int count) (lastCompletion v) \<rparr>"

text \<open>
  \<open>sort.SliceStable\<close> with a \<open>less\<close> function: a stable insertion sort. For a \<open>less\<close>
  that is a strict weak order (all three uses in the source are) the stably sorted
  permutation is unique, so this is what the library returns.
\<close>

fun insert_stable :: "('a \<Rightarrow> 'a \<Rightarrow> bool) \<Rightarrow> 'a \<Rightarrow> 'a list \<Rightarrow> 'a list" where
  "insert_stable lt x [] = [x]"
| "insert_stable lt x (y # ys) =
     (if lt y x then y # insert_stable lt x ys else x # y # ys)"

definition SliceStable :: "('a \<Rightarrow> 'a \<Rightarrow> bool) \<Rightarrow> 'a list \<Rightarrow> 'a list" where
  "SliceStable lt xs = foldr (insert_stable lt) xs []"

section \<open>First-come, first-serve\<close>

text \<open>
  One iteration of the loop of \<open>FCFSSchedule\<close> (lines 98-128) at index \<open>i\<close>. The variable
  \<open>waitingTime\<close> lives outside the loop and is assigned only when the arrival time is
  positive.
\<close>

definition FCFS_step :: "Process list \<Rightarrow> nat \<Rightarrow> Vars \<Rightarrow> Vars" where
  "FCFS_step processes i v =
     (let p = processes ! i;
          waitingTime' = (if 0 <s ArrivalTime p then serviceTime v - ArrivalTime p
                          else waitingTime v);
          start = waitingTime' + ArrivalTime p;
          turnaround = BurstDuration p + waitingTime';
          completion = BurstDuration p + ArrivalTime p + waitingTime';
          serviceTime' = serviceTime v + BurstDuration p
      in v\<lparr> serviceTime := serviceTime',
            sumWait := sumWait v + sint waitingTime',
            sumTurnaround := sumTurnaround v + sint turnaround,
            lastCompletion := sint completion,
            waitingTime := waitingTime',
            schedule := (schedule v)[i := [ProcessID p, Priority p, BurstDuration p,
                                           ArrivalTime p, waitingTime', turnaround, completion]],
            gantt := gantt v @ [\<lparr> PID = ProcessID p, Start = start, Stop = serviceTime' \<rparr>] \<rparr>)"

definition FCFSSchedule :: "Process list \<Rightarrow> Output" where
  "FCFSSchedule processes =
     finish (length processes)
       (fold (FCFS_step processes) [0..<length processes] (vars0 (length processes)))"

section \<open>Counting loops\<close>

text \<open>
  Two loops of the source count a variable up to a bound one step at a time and
  increment a second variable on the way: \<open>for j := serviceTime; j < bound; j++ { currBurst += 1 }\<close>
  (line 356) and \<open>for int64(currBurst) < bound { stoppingTime++; currBurst++ }\<close> (line 205).
  \<open>count_until j bound n\<close> returns the final values of both.
\<close>

function count_until :: "int64 \<Rightarrow> int64 \<Rightarrow> int64 \<Rightarrow> int64 \<times> int64" where
  "count_until j bound n =
     (if j <s bound then count_until (j + 1) bound (n + 1) else (j, n))"
  by pat_completeness auto
termination
proof (relation "measure (\<lambda>(j, bound, n). nat (sint bound - sint j))")
  show "wf (measure (\<lambda>(j :: int64, bound :: int64, n :: int64). nat (sint bound - sint j)))"
    by simp
next
  fix j bound n :: int64
  assume less: "j <s bound"
  have b: "sint bound < 2 ^ 63" using sint_lt [of bound] by simp
  have l: "- (2 ^ 63) \<le> sint j" using sint_ge [of j] by simp
  from less have jb: "sint j < sint bound" by (simp add: word_sless_alt)
  with b l have r: "- (2 ^ 63) \<le> sint j + 1 \<and> sint j + 1 < 2 ^ 63" by simp
  have "sint (j + 1) = signed_take_bit 63 (sint j + 1)"
    by (simp add: sint_word_add [of j 1])
  also have "\<dots> = sint j + 1"
    using r by (simp add: signed_take_bit_int_eq_self)
  finally have "sint (j + 1) = sint j + 1" .
  with jb show "((j + 1, bound, n + 1), (j, bound, n))
      \<in> measure (\<lambda>(j, bound, n). nat (sint bound - sint j))"
    by simp
qed

section \<open>Shortest-job-first\<close>

text \<open>
  The simulation state of \<open>SJFSchedule\<close>, \<open>SJFPrioritySchedule\<close> and \<open>RRSchedule\<close>: the
  common variables together with the working copy and the ready queue.
\<close>

record Sim = Vars +
  copyProc :: "Process list"
  readyQueue :: "Process list"
  currBurst :: int64

definition sim0 :: "nat \<Rightarrow> Process list \<Rightarrow> Sim" where
  "sim0 n cp = \<lparr> serviceTime = 0, sumWait = 0, sumTurnaround = 0, lastCompletion = 0,
                  waitingTime = 0, schedule = replicate n [], gantt = [],
                  copyProc = cp, readyQueue = [], currBurst = 0 \<rparr>"

text \<open>The \<open>less\<close> function of the sort at lines 336-341: arrival time, then burst.\<close>

definition SJF_less :: "Process \<Rightarrow> Process \<Rightarrow> bool" where
  "SJF_less p q =
     (if ArrivalTime p = ArrivalTime q then BurstDuration p <s BurstDuration q
      else ArrivalTime p <s ArrivalTime q)"

text \<open>First branch (lines 345-352): a process that arrives at time 0.\<close>

definition SJF_first :: "nat \<Rightarrow> Sim \<Rightarrow> Sim" where
  "SJF_first i s =
     (let p = copyProc s ! i;
          p' = p\<lparr> totalWait := 0, startingTime := ArrivalTime p,
                  stoppingTime := BurstDuration p, isDone := True \<rparr>
      in s\<lparr> serviceTime := serviceTime s + BurstDuration p',
            copyProc := (copyProc s)[i := p'],
            readyQueue := readyQueue s @ [p'] \<rparr>)"

text \<open>
  Second branch (lines 354-383): the process at \<open>i\<close> is run up to the arrival of the
  shorter process at \<open>i + 1\<close>, the two are swapped, and the shorter one is run.
\<close>

definition SJF_preempt :: "nat \<Rightarrow> Sim \<Rightarrow> Sim" where
  "SJF_preempt i s =
     (let p = copyProc s ! i;
          q = copyProc s ! (i + 1);
          currBurst' = snd (count_until (serviceTime s) (ArrivalTime q) (currBurst s));
          remBurst = BurstDuration p;
          wait1 = serviceTime s - ArrivalTime p;
          p1 = p\<lparr> BurstDuration := currBurst', totalWait := wait1,
                  startingTime := serviceTime s,
                  stoppingTime := currBurst' + ArrivalTime p + wait1, isDone := False \<rparr>;
          serviceTime1 = serviceTime s + currBurst';
          p2 = p1\<lparr> BurstDuration := remBurst - currBurst' \<rparr>;
          wait2 = serviceTime1 - ArrivalTime q;
          q1 = q\<lparr> totalWait := wait2, startingTime := serviceTime1,
                  stoppingTime := serviceTime1 + BurstDuration q + wait2, isDone := True \<rparr>
      in s\<lparr> serviceTime := serviceTime1 + BurstDuration q1,
            copyProc := (copyProc s)[i := q1, i + 1 := p2],
            readyQueue := readyQueue s @ [p1, q1],
            currBurst := currBurst' \<rparr>)"

text \<open>
  Third branch (lines 385-395): the loop over the ready queue as it is when the loop
  starts; \<open>r\<close> is \<open>readyQueue[j]\<close>.
\<close>

definition SJF_resume_step :: "nat \<Rightarrow> Process \<Rightarrow> Sim \<Rightarrow> Sim" where
  "SJF_resume_step i r s =
     (let p = copyProc s ! i in
      if ProcessID r = ProcessID p \<and> \<not> isDone r then
        (let stop = serviceTime s + BurstDuration p;
             p' = p\<lparr> startingTime := serviceTime s, stoppingTime := stop,
                     totalWait := stop - serviceTime s, isDone := True \<rparr>
         in s\<lparr> serviceTime := serviceTime s + BurstDuration p',
               copyProc := (copyProc s)[i := p'],
               readyQueue := readyQueue s @ [p'] \<rparr>)
      else s)"

definition SJF_step :: "nat \<Rightarrow> Sim \<Rightarrow> Sim" where
  "SJF_step i s =
     (let cp = copyProc s; p = cp ! i in
      if ArrivalTime p = 0 \<and> \<not> isDone p then SJF_first i s
      else if i + 1 < length cp \<and> BurstDuration (cp ! (i + 1)) <s BurstDuration p then
        (if ArrivalTime p <s ArrivalTime (cp ! (i + 1)) then SJF_preempt i s else s)
      else if \<not> isDone p then fold (SJF_resume_step i) (readyQueue s) s
      else s)"

text \<open>
  The loop over the ready queue that builds the table and the chart (lines 399-433);
  \<open>rq\<close> is the whole ready queue and \<open>r\<close> is \<open>readyQueue[i]\<close>.
\<close>

definition SJF_emit :: "Process list \<Rightarrow> Process \<Rightarrow> Sim \<Rightarrow> Sim" where
  "SJF_emit rq r s =
     (let turnaround = BurstDuration r + totalWait r;
          completion = stoppingTime r;
          s1 = (if isDone r then
                  s\<lparr> sumTurnaround := sumTurnaround s + sint turnaround,
                     sumWait := sumWait s + sint (totalWait r) \<rparr>
                else
                  s\<lparr> sumWait := fold (\<lambda>q w. if ProcessID q = ProcessID r \<and> isDone q \<and> \<not> isDone r
                                             then w - sint (totalWait r) else w) rq (sumWait s) \<rparr>)
      in s1\<lparr> schedule := schedule s1 @ [[ProcessID r, Priority r, BurstDuration r,
                                           ArrivalTime r, totalWait r, turnaround, completion]],
             gantt := gantt s1 @ [\<lparr> PID = ProcessID r, Start = startingTime r,
                                    Stop = stoppingTime r \<rparr>],
             lastCompletion := sint (stoppingTime r) \<rparr>)"

text \<open>
  \<open>SJFSchedule\<close> sorts the slice it was given (line 336) before it copies it, so the
  function returns, next to its output, the caller's slice as the call leaves it.
\<close>

definition SJFSchedule :: "Process list \<Rightarrow> Output \<times> Process list" where
  "SJFSchedule processes =
     (let sorted = SliceStable SJF_less processes;
          s1 = fold SJF_step [0..<length sorted] (sim0 (length processes) sorted);
          s2 = fold (SJF_emit (readyQueue s1)) (readyQueue s1) s1
      in (finish (length processes) (Vars.truncate s2), sorted))"

section \<open>Round-robin\<close>

text \<open>The two run-time panics that the indexing and slicing of the source can raise.\<close>

datatype panic = IndexOutOfRange | SliceBoundsOutOfRange

text \<open>
  One iteration of the loop that splits the processes (lines 470-490). \<open>x\<close> is the copy
  that \<open>range\<close> makes of \<open>copyQueue[i]\<close> before the body writes to the element. The slice
  expression \<open>readyQueue[i:]\<close> panics unless \<open>i \<le> len(readyQueue)\<close>.
\<close>

definition RR_split ::
  "int64 \<Rightarrow> int64 \<Rightarrow> nat \<Rightarrow> Process list \<times> Process list
     \<Rightarrow> panic + Process list \<times> Process list" where
  "RR_split timeQuantum service i cr =
     (let copyQueue = fst cr; rq = snd cr;
          x = copyQueue ! i;
          c0 = (copyQueue ! i)\<lparr> startingTime := service \<rparr>
      in if BurstDuration c0 = timeQuantum then
           Inr (copyQueue[i := c0], rq @ [x\<lparr> isDone := True, hasMultiple := False \<rparr>])
         else
           (let x' = x\<lparr> hasMultiple := True, isDone := True,
                        BurstDuration := BurstDuration c0 - timeQuantum \<rparr>;
                c1 = c0\<lparr> isDone := False, hasMultiple := True,
                         BurstDuration := BurstDuration c0 - BurstDuration x' \<rparr>
            in if i \<le> length rq
               then Inr (copyQueue[i := c1], take i rq @ [c1] @ drop i rq @ [x'])
               else Inl SliceBoundsOutOfRange))"

definition RR_split_all ::
  "int64 \<Rightarrow> Process list \<Rightarrow> panic + Process list \<times> Process list" where
  "RR_split_all timeQuantum copyQueue =
     fold (\<lambda>i r. case r of Inl e \<Rightarrow> Inl e | Inr cr \<Rightarrow> RR_split timeQuantum 0 i cr)
       [0..<length copyQueue] (Inr (copyQueue, []))"

text \<open>The loop that builds the table and the chart (lines 493-532).\<close>

definition RR_emit :: "nat \<Rightarrow> Sim \<Rightarrow> Sim" where
  "RR_emit i s =
     (let rq = readyQueue s; st = serviceTime s;
          r1 = (rq ! i)\<lparr> totalWait := st - ArrivalTime (rq ! i), startingTime := st,
                         stoppingTime := st + BurstDuration (rq ! i) \<rparr>;
          r2 = (if 1 \<le> i \<and> hasMultiple r1 then
                  (if isDone r1 then r1\<lparr> totalWait := st - startingTime (rq ! (i - 1)) \<rparr>
                   else r1\<lparr> totalWait := st - ArrivalTime r1 \<rparr>)
                else r1);
          turnaround = BurstDuration r2 + totalWait r2
      in s\<lparr> readyQueue := rq[i := r2],
            sumWait := (if isDone r2 then sumWait s + sint (totalWait r2) else sumWait s),
            sumTurnaround := sumTurnaround s + sint turnaround,
            serviceTime := st + BurstDuration r2,
            schedule := schedule s @ [[ProcessID r2, Priority r2, BurstDuration r2,
                                       ArrivalTime r2, totalWait r2, turnaround, stoppingTime r2]],
            gantt := gantt s @ [\<lparr> PID = ProcessID r2, Start = startingTime r2,
                                  Stop = stoppingTime r2 \<rparr>],
            lastCompletion := sint (stoppingTime r2) \<rparr>)"

text \<open>The quantum: the minimum burst, found by the loop at lines 461-467.\<close>

definition RR_quantum :: "Process list \<Rightarrow> int64" where
  "RR_quantum processes =
     fold (\<lambda>p t. if BurstDuration p <s t then BurstDuration p else t) processes
       (BurstDuration (processes ! 0))"

definition RRSchedule :: "Process list \<Rightarrow> panic + Output" where
  "RRSchedule processes =
     (if processes = [] then Inl IndexOutOfRange
      else case RR_split_all (RR_quantum processes) processes of
             Inl e \<Rightarrow> Inl e
           | Inr cr \<Rightarrow>
               Inr (finish (length processes)
                 (Vars.truncate
                   (fold RR_emit [0..<length (snd cr)]
                     ((sim0 (length processes) (fst cr))\<lparr> readyQueue := snd cr \<rparr>)))))"

section \<open>Priority scheduling\<close>

text \<open>
  The first loop of \<open>SJFPrioritySchedule\<close> (lines 199-238) ranges over \<open>copyProc\<close> and, in
  its body, may replace \<open>copyProc\<close> by a slice one element longer (line 220). \<open>range\<close>
  evaluates its operand once, so the loop keeps reading \<open>x\<close> from the array that
  \<open>copyProc\<close> had when the loop started. Whether the longer slice still lives in that
  array depends on the capacity \<open>cap0\<close> that the runtime gave to the copy at line 187,
  which the language leaves to the implementation; it is a parameter of the model.
  \<open>rangeArr = None\<close> says that \<open>copyProc\<close> still lives in the array of the \<open>range\<close>;
  \<open>Some a\<close> says that an \<open>append\<close> has moved \<open>copyProc\<close> away and left \<open>a\<close> behind.
  \<open>stopped\<close> records the \<open>break\<close> at line 236. The variable \<open>totalBurst\<close> is written
  but never read and is left out.
\<close>

record PSim = Sim +
  rangeArr :: "Process list option"
  stopped :: bool

definition psim0 :: "nat \<Rightarrow> Process list \<Rightarrow> PSim" where
  "psim0 n cp = \<lparr> serviceTime = 0, sumWait = 0, sumTurnaround = 0, lastCompletion = 0,
                   waitingTime = 0, schedule = replicate n [], gantt = [],
                   copyProc = cp, readyQueue = [], currBurst = 0,
                   rangeArr = None, stopped = False \<rparr>"

text \<open>Lines 203-224; \<open>pq\<close> is \<open>priorityQueue\<close>.\<close>

definition Prio_split :: "nat \<Rightarrow> Process list \<Rightarrow> nat \<Rightarrow> PSim \<Rightarrow> PSim" where
  "Prio_split cap0 pq i s =
     (let cp = copyProc s;
          x = (case rangeArr s of None \<Rightarrow> cp ! i | Some a \<Rightarrow> a ! i);
          Temp = cp ! i
      in if i + 1 < length cp \<and> ProcessID (cp ! i) \<noteq> ProcessID (pq ! i) then
           (let ticks = count_until (currBurst s) (ArrivalTime (cp ! (i + 1)))
                          (stoppingTime (cp ! i));
                cb = fst ticks;
                cp1 = cp[i := (cp ! i)\<lparr> stoppingTime := snd ticks \<rparr>];
                short = cb <s BurstDuration Temp;
                x1 = (if short then x\<lparr> stoppingTime := cb, BurstDuration := cb \<rparr> else x);
                cp2 = (if short
                       then cp1[i := (cp1 ! i)\<lparr> BurstDuration := BurstDuration (cp1 ! i) - cb \<rparr>]
                       else cp1);
                rq = (if short then readyQueue s @ [cp2 ! i] else readyQueue s);
                s1 = s\<lparr> readyQueue := rq, currBurst := cb \<rparr>
            in if ProcessID (cp2 ! (i + 1)) = ProcessID (pq ! i) then
                 (if \<not> isDone (cp2 ! i) then
                    s1\<lparr> copyProc := (take i cp2 @ [x1] @ drop i cp2)[i := x1],
                        rangeArr := (case rangeArr s of
                                       Some a \<Rightarrow> Some a
                                     | None \<Rightarrow> if length cp2 < cap0 then None else Some cp2) \<rparr>
                  else s1\<lparr> copyProc := cp2[i := x1] \<rparr>)
               else s1\<lparr> copyProc := cp2 \<rparr>)
         else s)"

text \<open>Lines 227-237.\<close>

definition Prio_swap :: "nat \<Rightarrow> PSim \<Rightarrow> PSim" where
  "Prio_swap i s =
     (let cp = copyProc s
      in if i + 2 < length cp \<and> Priority (cp ! (i + 2)) <s Priority (cp ! (i + 1)) then
           (let a = (cp ! (i + 1))\<lparr> totalWait := BurstDuration (cp ! (i + 2)) \<rparr>;
                cp1 = cp[i + 1 := cp ! (i + 2)];
                x = (if ProcessID a = ProcessID (cp1 ! i) then a\<lparr> isDone := True \<rparr> else a)
            in s\<lparr> copyProc := cp1[i + 2 := x], stopped := True \<rparr>)
         else s)"

definition Prio_step :: "nat \<Rightarrow> Process list \<Rightarrow> nat \<Rightarrow> PSim \<Rightarrow> PSim" where
  "Prio_step cap0 pq i s = (if stopped s then s else Prio_swap i (Prio_split cap0 pq i s))"

text \<open>Lines 241-264: the loop that marks the last part of each process as done.\<close>

fun mark_last :: "nat \<Rightarrow> int64 \<Rightarrow> Process list \<Rightarrow> Process list" where
  "mark_last 0 pid cp = cp"
| "mark_last (Suc k) pid cp =
     (if ProcessID (cp ! Suc k) = pid then cp[Suc k := (cp ! Suc k)\<lparr> isDone := True \<rparr>]
      else mark_last k pid cp)"

definition Prio_mark :: "Process \<Rightarrow> Process list \<Rightarrow> Process list" where
  "Prio_mark p cp =
     (let burstCount = fold (\<lambda>c n. if ProcessID c = ProcessID p then n + BurstDuration c else n)
                         cp (0 :: int64)
      in if burstCount = BurstDuration p then mark_last (length cp - 1) (ProcessID p) cp
         else cp)"

text \<open>Lines 267-309: the loop that builds the table and the chart.\<close>

definition Prio_emit :: "nat \<Rightarrow> Sim \<Rightarrow> Sim" where
  "Prio_emit i s =
     (let cp = copyProc s; st = serviceTime s; c = cp ! i;
          waitingTime' = (if 0 <s ArrivalTime c then st - ArrivalTime c else waitingTime s);
          cp1 = (if 0 <s ArrivalTime c then cp[i := c\<lparr> totalWait := waitingTime' \<rparr>] else cp);
          cp2 = (if i + 2 < length cp1 \<and> ProcessID (cp1 ! (i + 2)) = ProcessID (cp1 ! i)
                 then cp1[i + 2 := (cp1 ! (i + 2))\<lparr> totalWait := BurstDuration (cp1 ! (i + 1)) \<rparr>]
                 else cp1);
          c2 = (cp2 ! i)\<lparr> startingTime := st, stoppingTime := st + BurstDuration (cp2 ! i) \<rparr>;
          turnaround = BurstDuration c2 + totalWait c2;
          completion = BurstDuration c2 + ArrivalTime c2 + waitingTime'
      in s\<lparr> waitingTime := waitingTime',
            copyProc := cp2[i := c2],
            sumWait := sumWait s + sint (totalWait c2),
            sumTurnaround := sumTurnaround s + sint turnaround,
            lastCompletion := sint completion,
            serviceTime := st + BurstDuration c2,
            schedule := schedule s @ [[ProcessID c2, Priority c2, BurstDuration c2,
                                       ArrivalTime c2, totalWait c2, turnaround, stoppingTime c2]],
            gantt := gantt s @ [\<lparr> PID = ProcessID c2, Start = startingTime c2,
                                  Stop = stoppingTime c2 \<rparr>] \<rparr>)"

definition SJFPrioritySchedule :: "nat \<Rightarrow> Process list \<Rightarrow> Output" where
  "SJFPrioritySchedule cap0 processes =
     (let byArrival = SliceStable (\<lambda>p q. ArrivalTime p <s ArrivalTime q) processes;
          priorityQueue = SliceStable (\<lambda>p q. Priority p <s Priority q) processes;
          s1 = fold (Prio_step cap0 priorityQueue) [0..<length byArrival]
                 (psim0 (length processes) byArrival);
          cp = fold Prio_mark processes (copyProc s1);
          s2 = fold Prio_emit [0..<length cp] (sim0 (length processes) cp)
      in finish (length processes) (Vars.truncate s2))"

section \<open>Loading processes\<close>

text \<open>
  \<open>strconv.ParseInt(s, 10, 64)\<close> of Go's standard library: an optional sign, then one or
  more decimal digits, and the value must fit into 64 bits; anything else is an error
  (\<open>None\<close>).
\<close>

definition digit_val :: "char \<Rightarrow> nat option" where
  "digit_val c =
     (if 48 \<le> (of_char c :: nat) \<and> (of_char c :: nat) \<le> 57 then Some (of_char c - 48)
      else None)"

fun digits :: "string \<Rightarrow> nat \<Rightarrow> nat option" where
  "digits [] acc = Some acc"
| "digits (c # cs) acc =
     (case digit_val c of None \<Rightarrow> None | Some d \<Rightarrow> digits cs (10 * acc + d))"

definition ParseInt :: "string \<Rightarrow> int64 option" where
  "ParseInt s =
     (case s of
        [] \<Rightarrow> None
      | c # cs \<Rightarrow>
          (let neg = (c = CHR ''-'');
               body = (if c = CHR ''+'' \<or> c = CHR ''-'' then cs else s)
           in if body = [] then None
              else case digits body 0 of
                     None \<Rightarrow> None
                   | Some u \<Rightarrow>
                       if neg then (if u \<le> 2 ^ 63 then Some (word_of_int (- int u)) else None)
                       else (if u < 2 ^ 63 then Some (word_of_nat u) else None)))"

text \<open>
  How a call can end: it returns, the process exits with a status (\<open>os.Exit\<close>), or it
  panics.
\<close>

datatype 'a run = Done 'a | Exit nat | Panic panic

definition mustStrToInt :: "string \<Rightarrow> int64 run" where
  "mustStrToInt s = (case ParseInt s of None \<Rightarrow> Exit 1 | Some i \<Rightarrow> Done i)"

text \<open>\<open>mustStrToInt(rows[i][k])\<close>: the index expression is evaluated first.\<close>

definition field :: "string list \<Rightarrow> nat \<Rightarrow> int64 run" where
  "field rec k = (if k < length rec then mustStrToInt (rec ! k) else Panic IndexOutOfRange)"

text \<open>The process that \<open>loadProcesses\<close> builds from one record; the other fields are zero.\<close>

definition new_process :: "int64 \<Rightarrow> int64 \<Rightarrow> int64 \<Rightarrow> int64 \<Rightarrow> Process" where
  "new_process pid burst arrival priority =
     \<lparr> ProcessID = pid, ArrivalTime = arrival, BurstDuration = burst, Priority = priority,
       startingTime = 0, isDone = False, hasMultiple = False, totalWait = 0,
       stoppingTime = 0 \<rparr>"

text \<open>The body of the loop of \<open>loadProcesses\<close> (lines 598-603).\<close>

definition load_row :: "string list \<Rightarrow> Process run" where
  "load_row rec =
     (case field rec 0 of Exit n \<Rightarrow> Exit n | Panic e \<Rightarrow> Panic e | Done pid \<Rightarrow>
      case field rec 1 of Exit n \<Rightarrow> Exit n | Panic e \<Rightarrow> Panic e | Done burst \<Rightarrow>
      case field rec 2 of Exit n \<Rightarrow> Exit n | Panic e \<Rightarrow> Panic e | Done arrival \<Rightarrow>
      if length rec = 4 then
        (case field rec 3 of Exit n \<Rightarrow> Exit n | Panic e \<Rightarrow> Panic e
         | Done priority \<Rightarrow> Done (new_process pid burst arrival priority))
      else Done (new_process pid burst arrival 0))"

fun load_rows :: "string list list \<Rightarrow> Process list run" where
  "load_rows [] = Done []"
| "load_rows (rec # rows) =
     (case load_row rec of Exit n \<Rightarrow> Exit n | Panic e \<Rightarrow> Panic e | Done p \<Rightarrow>
      case load_rows rows of Exit n \<Rightarrow> Exit n | Panic e \<Rightarrow> Panic e
      | Done ps \<Rightarrow> Done (p # ps))"

text \<open>
  \<open>loadProcesses\<close> on what \<open>csv.NewReader(r).ReadAll()\<close> returned: an error (\<open>Inl\<close>) or
  the records. It returns an error (\<open>Inl\<close>) or the processes.
\<close>

definition loadProcesses :: "string + string list list \<Rightarrow> (string + Process list) run" where
  "loadProcesses read =
     (case read of
        Inl err \<Rightarrow> Done (Inl (err @ '': reading CSV''))
      | Inr rows \<Rightarrow>
          (case load_rows rows of Exit n \<Rightarrow> Exit n | Panic e \<Rightarrow> Panic e
           | Done ps \<Rightarrow> Done (Inr ps)))"

section \<open>Reading the output\<close>

text \<open>
  The total time that the chart gives to one process: the sum of \<open>Stop - Start\<close> over the
  slices that bear its id.
\<close>

definition slice_total :: "int64 \<Rightarrow> TimeSlice list \<Rightarrow> int64" where
  "slice_total pid g =
     sum_list (map (\<lambda>t. Stop t - Start t) (filter (\<lambda>t. PID t = pid) g))"

text \<open>A slice seen as the process it belongs to and its duration.\<close>

definition slice_run :: "TimeSlice \<Rightarrow> int64 \<times> int64" where
  "slice_run t = (PID t, Stop t - Start t)"

text \<open>
  The table columns are id, priority, burst, arrival, wait, turnaround, exit. A row is
  consistent when it is a \<open>nil\<close> row or has all seven cells and its turnaround cell is the
  sum of its own burst and wait cells.
\<close>

definition row_ok :: "row \<Rightarrow> bool" where
  "row_ok r = (r = [] \<or> (length r = 7 \<and> r ! 5 = r ! 2 + r ! 4))"

text \<open>The output of a scheduler that ran no loop iteration: nothing to show, and \<open>0/0\<close> thrice.\<close>

definition empty_output :: Output where
  "empty_output = \<lparr> out_gantt = [], out_schedule = [], aveWait = NaN,
                     aveTurnaround = NaN, aveThroughput = NaN \<rparr>"

text \<open>The time at which the processor has served the first \<open>i\<close> processes of a list.\<close>

definition served :: "Process list \<Rightarrow> nat \<Rightarrow> int64" where
  "served processes i = sum_list (map BurstDuration (take i processes))"

section \<open>The empty process list\<close>

text \<open>
  Claim C1 asks that all four schedulers survive the empty list and report the three
  averages as "undefined". \<open>RRSchedule\<close> reads \<open>processes[0]\<close> (line 461) and panics; the
  other three divide zero by zero and hand NaN to the footer.
\<close>

theorem empty_list_not_undefined:
  "RRSchedule [] = Inl IndexOutOfRange \<and>
   aveWait (FCFSSchedule []) = NaN \<and>
   aveTurnaround (FCFSSchedule []) = NaN \<and>
   aveThroughput (FCFSSchedule []) = NaN"
  by code_simp

text \<open>
  Claim C1, as the code has it: on the empty list \<open>FCFSSchedule\<close>, \<open>SJFSchedule\<close> and
  \<open>SJFPrioritySchedule\<close> (whatever the capacity of its working copy) return without a
  panic, with an empty chart, an empty table, and NaN for the average wait, the average
  turnaround and the throughput.
\<close>

theorem empty_list_gives_NaN:
  "FCFSSchedule [] = empty_output \<and>
   fst (SJFSchedule []) = empty_output \<and>
   SJFPrioritySchedule cap0 [] = empty_output"
  by (simp add: FCFSSchedule_def SJFSchedule_def SJFPrioritySchedule_def SliceStable_def
      finish_def vars0_def sim0_def psim0_def Vars.truncate_def f64_div_def empty_output_def
      Let_def)

section \<open>The caller's list\<close>

text \<open>
  Claim C2 (every scheduler leaves the caller's list as it was) against \<open>SJFSchedule\<close>,
  which sorts \<open>processes\<close> itself at line 336 and copies afterwards: a list that is not
  in arrival order comes back reordered.
\<close>

theorem SJF_reorders_callers_list:
  "snd (SJFSchedule [new_process 1 3 5 0, new_process 2 2 0 0]) =
     [new_process 2 2 0 0, new_process 1 3 5 0]"
  by code_simp

section \<open>Shortest-job-first on the example of the specification\<close>

text \<open>
  Claim C4 expects the slices (1: 0-6), (2: 6-8), (4: 8-11), (3: 11-19). The code
  produces four other slices: process 2 is never run, process 3 gets an empty slice and
  an overlapping one, and process 4 runs for six units instead of three.
\<close>

theorem SJF_example_timeline:
  "out_gantt (fst (SJFSchedule [new_process 1 6 0 0, new_process 2 2 1 0,
                                new_process 3 8 2 0, new_process 4 3 3 0])) =
     [\<lparr>PID = 1, Start = 0, Stop = 6\<rparr>, \<lparr>PID = 3, Start = 6, Stop = 6\<rparr>,
      \<lparr>PID = 4, Start = 6, Stop = 12\<rparr>, \<lparr>PID = 3, Start = 9, Stop = 17\<rparr>]"
  by code_simp

section \<open>Slice durations and bursts\<close>

text \<open>
  Claim C7 (the slices of a process add up to its burst) on the same input: process 2,
  with burst 2, gets no time at all, and process 4, with burst 3, gets 6.
\<close>

theorem SJF_example_slice_totals:
  "slice_total 2 (out_gantt (fst (SJFSchedule [new_process 1 6 0 0, new_process 2 2 1 0,
                                               new_process 3 8 2 0, new_process 4 3 3 0]))) = 0 \<and>
   slice_total 4 (out_gantt (fst (SJFSchedule [new_process 1 6 0 0, new_process 2 2 1 0,
                                               new_process 3 8 2 0, new_process 4 3 3 0]))) = 6"
  by code_simp

end
